theory Spec2Isabelle
  imports Main "HOL-Library.Word" "HOL-Library.Signed_Division"
begin

section \<open>Machine integers and the enumerations of the primitive library\<close>

text \<open>
  The kernels compute with C++ \<open>int\<close> (32 bits) and \<open>int64\<close> (64 bits). Both are words
  here: arithmetic wraps around, \<open>sint\<close> reads the two's complement value, widening
  \<open>int\<close> to \<open>int64\<close> is \<open>scast\<close> (sign extension) and narrowing \<open>int64\<close> to \<open>int\<close> is
  \<open>ucast\<close> (the low 32 bits).
\<close>

type_synonym int32 = "32 word"
type_synonym int64 = "64 word"

text \<open>
  \<open>mkldnn::algorithm\<close> is declared in the header of the primitive library. The four
  recurrent kinds are the values \<open>ParseRNNMode\<close> can produce; \<open>algorithm_other\<close> stands
  for every other enumerator of that type (the \<open>default\<close> branch of \<open>get_param_size\<close>).
\<close>

datatype algorithm = rnn_relu | rnn_tanh | rnn_lstm | rnn_gru | algorithm_other

datatype input_mode = rnn_linear_input | rnn_skip_input

datatype direction = rnn_unidirectional | rnn_bidirectional

section \<open>The size of the parameter buffer\<close>

text \<open>
  \<open>get_param_size\<close>: the three locals \<open>first_layer_weights\<close>, \<open>higher_layer_weights\<close>
  and the product with \<open>dir_count\<close> are computed in \<open>int\<close>; the product is widened to
  the \<open>int64\<close> result. The \<open>default\<close> branch leaves the initial value \<open>-1\<close>.
\<close>

definition get_param_size :: "algorithm \<Rightarrow> int32 \<Rightarrow> int32 \<Rightarrow> int32 \<Rightarrow> int32 \<Rightarrow> int64" where
  "get_param_size rnn_mode dir_count input_size num_units num_layers =
     (case rnn_mode of
        rnn_relu \<Rightarrow>
          (let first_layer_weights = num_units * (input_size + num_units + 2);
               higher_layer_weights = (num_layers - 1) * num_units * (num_units + num_units + 2)
           in scast ((first_layer_weights + higher_layer_weights) * dir_count))
      | rnn_tanh \<Rightarrow>
          (let first_layer_weights = num_units * (input_size + num_units + 2);
               higher_layer_weights = (num_layers - 1) * num_units * (num_units + num_units + 2)
           in scast ((first_layer_weights + higher_layer_weights) * dir_count))
      | rnn_lstm \<Rightarrow>
          (let first_layer_weights = 4 * num_units * (input_size + num_units + 2);
               higher_layer_weights = 4 * (num_layers - 1) * num_units * (num_units + num_units + 2)
           in scast ((first_layer_weights + higher_layer_weights) * dir_count))
      | rnn_gru \<Rightarrow>
          (let first_layer_weights = 3 * num_units * (input_size + num_units + 2);
               higher_layer_weights = 3 * (num_layers - 1) * num_units * (num_units + num_units + 2)
           in scast ((first_layer_weights + higher_layer_weights) * dir_count))
      | algorithm_other \<Rightarrow> - 1)"

text \<open>
  The specification's \<open>ParamSizeCalculator\<close>, over the mathematical integers, for
  comparison with the code: the gate multiplier of a recognized kind, and the formula
  \<open>(first_layer + other_layers) * dir_count\<close>.
\<close>

definition recognized :: "algorithm \<Rightarrow> bool" where
  "recognized k = (k = rnn_relu \<or> k = rnn_tanh \<or> k = rnn_lstm \<or> k = rnn_gru)"

fun gate_multiplier :: "algorithm \<Rightarrow> int" where
  "gate_multiplier rnn_relu = 1"
| "gate_multiplier rnn_tanh = 1"
| "gate_multiplier rnn_lstm = 4"
| "gate_multiplier rnn_gru = 3"
| "gate_multiplier algorithm_other = 0"

definition spec_param_size :: "algorithm \<Rightarrow> int \<Rightarrow> int \<Rightarrow> int \<Rightarrow> int \<Rightarrow> int" where
  "spec_param_size k dir_count input_size num_units num_layers =
     (gate_multiplier k * num_units * (input_size + num_units + 2)
      + gate_multiplier k * (num_layers - 1) * num_units * (2 * num_units + 2)) * dir_count"

text \<open>The range of a C++ \<open>int\<close>.\<close>

definition fits_int32 :: "int \<Rightarrow> bool" where
  "fits_int32 v = (- (2 ^ 31) \<le> v \<and> v < 2 ^ 31)"

section \<open>Tensors, shapes and errors\<close>

text \<open>
  A \<open>TensorShape\<close> is its list of dimension sizes (\<open>int64\<close> each); the shape written
  \<open>{}\<close> in the source is the empty list. A tensor is its shape and its flat data.
  The kernels of the recurrence only look at shapes; the size query also reads data.
\<close>

type_synonym TensorShape = "int64 list"

datatype 'a Tensor = Tensor (shape: TensorShape) (flat: "'a list")

definition dims :: "'a Tensor \<Rightarrow> nat" where
  "dims t = length (shape t)"

text \<open>
  \<open>errors::InvalidArgument\<close> concatenates its arguments; the message is kept as the
  list of these arguments, a shape standing for its \<open>DebugString()\<close>. The other
  constructors are the ways a call can stop without a status: \<open>dim_size(d)\<close> with \<open>d\<close>
  outside the rank, a member access through a \<open>Tensor\<close> pointer that is still
  \<open>nullptr\<close>, \<open>scalar<T>()\<close> on a tensor that has not exactly one element, and an
  \<open>mkldnn::error\<close> thrown by the primitive library.
\<close>

datatype message_part = Text string | ShapeDebugString TensorShape

datatype error =
    InvalidArgument "message_part list"
  | DimIndexOutOfRange
  | NullPointerDereference
  | NotASingleElement
  | PrimitiveError

fun and_then :: "error + 'a \<Rightarrow> ('a \<Rightarrow> error + 'b) \<Rightarrow> error + 'b" where
  "and_then (Inl e) f = Inl e"
| "and_then (Inr v) f = f v"

definition dim_size :: "'a Tensor \<Rightarrow> nat \<Rightarrow> error + int64" where
  "dim_size t d = (if d < dims t then Inr (shape t ! d) else Inl DimIndexOutOfRange)"

text \<open>Division of two \<open>int64\<close> values as C++ does it: the quotient truncated towards zero.\<close>

definition int64_div :: "int64 \<Rightarrow> int64 \<Rightarrow> int64" where
  "int64_div a b = word_of_int (sint a sdiv sint b)"

section \<open>Model types and model shapes\<close>

text \<open>The three parsers of the attribute strings.\<close>

definition ParseRNNMode :: "string \<Rightarrow> error + algorithm" where
  "ParseRNNMode str =
     (if str = ''rnn_relu'' then Inr rnn_relu
      else if str = ''rnn_tanh'' then Inr rnn_tanh
      else if str = ''lstm'' then Inr rnn_lstm
      else if str = ''gru'' then Inr rnn_gru
      else Inl (InvalidArgument [Text ''Invalid RNN mode: '', Text str]))"

definition ParseRNNInputMode :: "string \<Rightarrow> error + input_mode" where
  "ParseRNNInputMode str =
     (if str = ''linear_input'' then Inr rnn_linear_input
      else if str = ''skip_input'' then Inr rnn_skip_input
      else if str = ''auto_select'' then Inr rnn_linear_input
      else Inl (InvalidArgument [Text ''Invalid RNN input mode: '', Text str]))"

definition ParseRNNDirectionMode :: "string \<Rightarrow> error + direction" where
  "ParseRNNDirectionMode str =
     (if str = ''unidirectional'' then Inr rnn_unidirectional
      else if str = ''bidirectional'' then Inr rnn_bidirectional
      else Inl (InvalidArgument [Text ''Invalid RNN direction mode: '', Text str]))"

record MkldnnModelTypes =
  rnn_mode :: algorithm
  rnn_input_mode :: input_mode
  rnn_direction_mode :: direction

definition HasInputC :: "MkldnnModelTypes \<Rightarrow> bool" where
  "HasInputC model_types = (rnn_mode model_types = rnn_lstm)"

record MkldnnModelShapes =
  num_layers :: int32
  input_size :: int32
  num_units :: int32
  seq_length :: int32
  batch_size :: int32
  dir_count :: int32
  input_shape :: TensorShape
  output_shape :: TensorShape
  hidden_state_shape :: TensorShape

definition IsCompatibleWith :: "MkldnnModelShapes \<Rightarrow> MkldnnModelShapes \<Rightarrow> bool" where
  "IsCompatibleWith lhs rhs =
     (num_layers lhs = num_layers rhs \<and> input_size lhs = input_size rhs \<and>
      num_units lhs = num_units rhs \<and> dir_count lhs = dir_count rhs)"

section \<open>Extracting the forward inputs\<close>

text \<open>
  The named inputs of the forward op as the \<open>OpKernelContext\<close> holds them; the backward
  op has four more. \<open>context->input(name, &p)\<close> of a declared input succeeds and sets
  \<open>p\<close>.
\<close>

record 'a ForwardInputs =
  input :: "'a Tensor"
  input_h :: "'a Tensor"
  input_c :: "'a Tensor"
  params :: "'a Tensor"

record 'a BackwardInputs = "'a ForwardInputs" +
  output_backprop :: "'a Tensor"
  output_h_backprop :: "'a Tensor"
  output_c_backprop :: "'a Tensor"
  reserve_space :: "'a Tensor"

text \<open>
  What \<open>ExtractForwardInput\<close> leaves in its out-parameters when it returns \<open>OK\<close>. The
  callers initialise every pointer with \<open>nullptr\<close>; \<open>input_c\<close> is only assigned when
  the model has a cell state, so \<open>Tcx\<close> is \<open>None\<close> otherwise.
\<close>

record 'a ExtractedInput =
  Tx :: "'a Tensor"
  Thx :: "'a Tensor"
  Tcx :: "'a Tensor option"
  Tweights :: "'a Tensor"
  model_shapes :: MkldnnModelShapes

definition ExtractForwardInput ::
  "('a, 'r) ForwardInputs_scheme \<Rightarrow> MkldnnModelTypes \<Rightarrow> error + 'a ExtractedInput" where
  "ExtractForwardInput context model_types =
     (let inp = input context;
          inp_h = input_h context;
          inp_c = (if HasInputC model_types then Some (input_c context) else None);
          prm = params context
      in
      and_then
        (if dims inp = 2 then
           and_then (dim_size inp 0) (\<lambda>d0.
           and_then (dim_size inp 1) (\<lambda>d1.
             let bs = ucast d0 :: int32; isz = ucast d1 :: int32
             in Inr (1 :: int32, bs, isz, [1, scast bs, scast isz])))
         else
           and_then (dim_size inp 0) (\<lambda>d0.
           and_then (dim_size inp 1) (\<lambda>d1.
           and_then (dim_size inp 2) (\<lambda>d2.
             Inr (ucast d0, ucast d1, ucast d2, shape inp)))))
        (\<lambda>(sl, bs, isz, in_shape).
      let dc = (if rnn_direction_mode model_types = rnn_bidirectional then 2 else 1) :: int32
      in
      and_then
        (if dims inp_h = 2 then
           and_then (dim_size inp_h 1) (\<lambda>d1.
             let nu = ucast d1 :: int32
             in Inr (1 :: int32, nu, [scast bs, scast nu]))
         else
           and_then (dim_size inp_h 0) (\<lambda>d0.
           and_then (dim_size inp_h 2) (\<lambda>d2.
             let nl = ucast (int64_div d0 (scast dc)) :: int32; nu = ucast d2 :: int32
             in Inr (nl, nu, [scast (dc * nl), scast bs, scast nu]))))
        (\<lambda>(nl, nu, hid_shape).
      if HasInputC model_types \<and> shape inp_h \<noteq> shape (input_c context) then
        Inl (InvalidArgument
              [Text ''input_h and input_c must have the same shape: '',
               ShapeDebugString (shape inp_h), Text '' '',
               ShapeDebugString (shape (input_c context))])
      else
        Inr \<lparr> Tx = inp, Thx = inp_h, Tcx = inp_c, Tweights = prm,
              model_shapes =
                \<lparr> num_layers = nl, input_size = isz, num_units = nu, seq_length = sl,
                  batch_size = bs, dir_count = dc, input_shape = in_shape,
                  output_shape =
                    (if dims inp = 2 then [scast bs, scast (dc * nu)]
                     else [scast sl, scast bs, scast (dc * nu)]),
                  hidden_state_shape = hid_shape \<rparr> \<rparr>)))"

section \<open>The size query\<close>

text \<open>
  \<open>MkldnnRNNParamsSizeOp::Compute\<close>, registered for \<open>Index = int32\<close>. The result is the
  list of lines written with \<open>LOG(ERROR)\<close> and either the output tensor or the way the
  call stopped. The status of \<open>context->input\<close> is ignored. \<open>scalar<int>()\<close> demands
  a tensor of exactly one element, whatever its shape, and \<open>()\<close> reads that element.
\<close>

record ParamsSizeInputs =
  num_layers_t :: "int32 Tensor"
  num_units_t :: "int32 Tensor"
  input_size_t :: "int32 Tensor"

definition IsScalar :: "TensorShape \<Rightarrow> bool" where
  "IsScalar s = (length s = 0)"

definition scalar :: "'a Tensor \<Rightarrow> error + 'a" where
  "scalar t = (case flat t of [v] \<Rightarrow> Inr v | _ \<Rightarrow> Inl NotASingleElement)"

definition MkldnnRNNParamsSizeOp_Compute ::
  "MkldnnModelTypes \<Rightarrow> ParamsSizeInputs \<Rightarrow> string list \<times> (error + int32 Tensor)" where
  "MkldnnRNNParamsSizeOp_Compute model_types context =
     (let dc = (if rnn_direction_mode model_types = rnn_unidirectional then 1 else 2) :: int32;
          log1 = (if \<not> IsScalar (shape (num_layers_t context))
                  then [''num_layers is not a scalar''] else [])
      in case scalar (num_layers_t context) of
           Inl e \<Rightarrow> (log1, Inl e)
         | Inr nl \<Rightarrow>
      (let log2 = log1 @ (if \<not> IsScalar (shape (num_units_t context))
                          then [''num_units is not a scalar''] else [])
       in case scalar (num_units_t context) of
            Inl e \<Rightarrow> (log2, Inl e)
          | Inr nu \<Rightarrow>
      (let log3 = log2 @ (if \<not> IsScalar (shape (input_size_t context))
                          then [''input_size is not a scalar''] else [])
       in case scalar (input_size_t context) of
            Inl e \<Rightarrow> (log3, Inl e)
          | Inr isz \<Rightarrow>
      (let params_size = ucast (get_param_size (rnn_mode model_types) dc isz nu nl) :: int32
       in (log3, Inr (Tensor [1] [params_size]))))))"

section \<open>The primitive library\<close>

text \<open>
  The recurrence itself is computed by the primitive library, which the kernels drive
  through descriptors. A memory descriptor is its dimensions and its format (the data
  type is always \<open>f32\<close>); an RNN descriptor collects the arguments of
  \<open>rnn_forward::desc\<close> and \<open>rnn_backward::desc\<close>.
\<close>

datatype memory_format = format_rnx | format_x

record memory_desc =
  md_dims :: "int32 list"
  md_format :: memory_format

datatype prop_kind = forward_training | forward_inference | backward

record rnn_desc =
  rd_prop_kind :: prop_kind
  rd_algorithm :: algorithm
  rd_direction :: direction
  rd_input_mode :: input_mode
  rd_num_units :: int32
  rd_num_layers :: int32
  rd_seq_length :: int32
  rd_state_outputs :: int32
  rd_x_desc :: memory_desc
  rd_hx_desc :: memory_desc
  rd_y_desc :: memory_desc
  rd_weights_desc :: memory_desc

text \<open>
  The library is a parameter of the kernels. \<open>workspace_get_size d\<close> is the answer of
  \<open>workspace_primitive_desc().get_size()\<close> (bytes, a \<open>size_t\<close>) of the forward primitive
  descriptor built from \<open>d\<close>, or \<open>None\<close> when building it throws; \<open>runs d\<close> tells
  whether building and running the primitive of \<open>d\<close> completes without throwing.
\<close>

record mkldnn =
  workspace_get_size :: "rnn_desc \<Rightarrow> 64 word option"
  runs :: "rnn_desc \<Rightarrow> bool"

section \<open>The forward kernel\<close>

text \<open>
  The descriptor \<open>rnn_fwd_desc\<close> that \<open>MkldnnRNNForwardOp::Compute\<close> builds from the
  model shapes, with \<open>total_w\<close> the parameter size narrowed to \<open>int\<close>.
\<close>

definition Forward_rnn_fwd_desc ::
  "bool \<Rightarrow> MkldnnModelTypes \<Rightarrow> MkldnnModelShapes \<Rightarrow> rnn_desc" where
  "Forward_rnn_fwd_desc is_training model_types ms =
     (let total_w = ucast (get_param_size (rnn_mode model_types) (dir_count ms)
                            (input_size ms) (num_units ms) (num_layers ms)) :: int32;
          x_desc = \<lparr> md_dims = [seq_length ms, batch_size ms, input_size ms],
                     md_format = format_rnx \<rparr>;
          hx_desc = \<lparr> md_dims = [num_layers ms, batch_size ms, num_units ms],
                      md_format = format_rnx \<rparr>;
          y_desc = \<lparr> md_dims = [seq_length ms, batch_size ms, num_units ms * dir_count ms],
                     md_format = format_rnx \<rparr>;
          weights_desc = \<lparr> md_dims = [total_w], md_format = format_x \<rparr>;
          a_prop_kind = (if is_training then forward_training else forward_inference)
      in \<lparr> rd_prop_kind = a_prop_kind, rd_algorithm = rnn_mode model_types,
           rd_direction = rnn_direction_mode model_types,
           rd_input_mode = rnn_input_mode model_types,
           rd_num_units = num_units ms, rd_num_layers = num_layers ms,
           rd_seq_length = seq_length ms, rd_state_outputs = 1,
           rd_x_desc = x_desc, rd_hx_desc = hx_desc, rd_y_desc = y_desc,
           rd_weights_desc = weights_desc \<rparr>)"

text \<open>
  The shapes of the four outputs that \<open>MkldnnRNNForwardOp::Compute\<close> allocates:
  \<open>Ty\<close> is \<open>output\<close>, \<open>Thy\<close> is \<open>output_h\<close>, \<open>Tcy\<close> is \<open>output_c\<close> and \<open>Tworkspace\<close> is
  \<open>reserve_space\<close>. \<open>sizeof(T)\<close> is 4, the kernel being registered for \<open>float\<close>.
\<close>

record ForwardOutputs =
  Ty :: TensorShape
  Thy :: TensorShape
  Tcy :: TensorShape
  Tworkspace :: TensorShape

definition MkldnnRNNForwardOp_Compute ::
  "mkldnn \<Rightarrow> bool \<Rightarrow> MkldnnModelTypes \<Rightarrow> ('a, 'r) ForwardInputs_scheme
     \<Rightarrow> error + ForwardOutputs" where
  "MkldnnRNNForwardOp_Compute lib is_training model_types context =
     and_then (ExtractForwardInput context model_types) (\<lambda>ex.
       let ms = model_shapes ex;
           out_y = output_shape ms;
           out_hy = hidden_state_shape ms;
           out_cy = (if HasInputC model_types then hidden_state_shape ms else []);
           rnn_fwd_desc = Forward_rnn_fwd_desc is_training model_types ms
       in case workspace_get_size lib rnn_fwd_desc of
            None \<Rightarrow> Inl PrimitiveError
          | Some sz \<Rightarrow>
              let out_ws =
                    (if \<not> is_training then []
                     else (let workspace_size = ucast (sz div 4) :: int32
                           in [scast workspace_size]))
              in if runs lib rnn_fwd_desc
                 then Inr \<lparr> Ty = out_y, Thy = out_hy, Tcy = out_cy, Tworkspace = out_ws \<rparr>
                 else Inl PrimitiveError)"

section \<open>The backward kernel\<close>

text \<open>
  The two descriptors that \<open>MkldnnRNNBackwardOp::Compute\<close> builds: a forward one in the
  training configuration, from which the workspace memory is described, and the
  backward one.
\<close>

definition Backward_rnn_fwd_desc :: "MkldnnModelTypes \<Rightarrow> MkldnnModelShapes \<Rightarrow> rnn_desc" where
  "Backward_rnn_fwd_desc model_types ms =
     (let total_w = ucast (get_param_size (rnn_mode model_types) (dir_count ms)
                            (input_size ms) (num_units ms) (num_layers ms)) :: int32;
          x_desc = \<lparr> md_dims = [seq_length ms, batch_size ms, input_size ms],
                     md_format = format_rnx \<rparr>;
          hx_desc = \<lparr> md_dims = [num_layers ms, batch_size ms, num_units ms],
                      md_format = format_rnx \<rparr>;
          y_desc = \<lparr> md_dims = [seq_length ms, batch_size ms, num_units ms * dir_count ms],
                     md_format = format_rnx \<rparr>;
          weights_desc = \<lparr> md_dims = [total_w], md_format = format_x \<rparr>
      in \<lparr> rd_prop_kind = forward_training, rd_algorithm = rnn_mode model_types,
           rd_direction = rnn_direction_mode model_types,
           rd_input_mode = rnn_input_mode model_types,
           rd_num_units = num_units ms, rd_num_layers = num_layers ms,
           rd_seq_length = seq_length ms, rd_state_outputs = 1,
           rd_x_desc = x_desc, rd_hx_desc = hx_desc, rd_y_desc = y_desc,
           rd_weights_desc = weights_desc \<rparr>)"

definition Backward_rnn_bwd_desc :: "MkldnnModelTypes \<Rightarrow> MkldnnModelShapes \<Rightarrow> rnn_desc" where
  "Backward_rnn_bwd_desc model_types ms =
     (Backward_rnn_fwd_desc model_types ms) \<lparr> rd_prop_kind := backward \<rparr>"

text \<open>
  The shapes of the four outputs of the backward kernel (\<open>input_backprop\<close>,
  \<open>input_h_backprop\<close>, \<open>input_c_backprop\<close>, \<open>params_backprop\<close>) and the size in bytes of
  the \<open>workspace\<close> memory that it lays over the data of \<open>reserve_space\<close>.
\<close>

record BackwardOutputs =
  Tdx :: TensorShape
  Tdhx :: TensorShape
  Tdcx :: TensorShape
  Tdweights :: TensorShape
  workspace_bytes :: "64 word"

definition MkldnnRNNBackwardOp_Compute ::
  "mkldnn \<Rightarrow> MkldnnModelTypes \<Rightarrow> ('a, 'r) BackwardInputs_scheme \<Rightarrow> error + BackwardOutputs" where
  "MkldnnRNNBackwardOp_Compute lib model_types context =
     and_then (ExtractForwardInput context model_types) (\<lambda>ex.
       let ms = model_shapes ex;
           Tdy = output_backprop context;
           Tdhy = output_h_backprop context;
           Tdcy = output_c_backprop context
       in
       if \<not> (output_shape ms = shape Tdy) then
         (case Tcx ex of
            None \<Rightarrow> Inl NullPointerDereference
          | Some c \<Rightarrow>
              Inl (InvalidArgument
                    [Text ''h and c must have the same shape: '',
                     ShapeDebugString (shape (Thx ex)), Text '' '',
                     ShapeDebugString (shape c)]))
       else if \<not> (shape Tdhy = hidden_state_shape ms) then
         Inl (InvalidArgument
               [Text ''Invalid dhy shape: '', ShapeDebugString (shape Tdhy), Text '' '',
                ShapeDebugString (hidden_state_shape ms)])
       else if HasInputC model_types \<and> \<not> (shape Tdcy = hidden_state_shape ms) then
         Inl (InvalidArgument
               [Text ''Invalid dcy shape: '', ShapeDebugString (shape Tdcy), Text '' '',
                ShapeDebugString (hidden_state_shape ms)])
       else
         and_then
           (if HasInputC model_types then
              (case Tcx ex of None \<Rightarrow> Inl NullPointerDereference | Some c \<Rightarrow> Inr (shape c))
            else Inr [])
           (\<lambda>out_dcx.
         let rnn_fwd_desc = Backward_rnn_fwd_desc model_types ms;
             rnn_bwd_desc = Backward_rnn_bwd_desc model_types ms
         in case workspace_get_size lib rnn_fwd_desc of
              None \<Rightarrow> Inl PrimitiveError
            | Some sz \<Rightarrow>
                if runs lib rnn_bwd_desc
                then Inr \<lparr> Tdx = shape (Tx ex), Tdhx = shape (Thx ex), Tdcx = out_dcx,
                           Tdweights = shape (Tweights ex), workspace_bytes = sz \<rparr>
                else Inl PrimitiveError))"

section \<open>The shape function of the forward op\<close>

text \<open>
  The shape function registered with the op \<open>MkldnnRNN\<close>, on shapes whose rank and
  dimensions are known. \<open>Multiply\<close> of the inference context is a parameter: it
  returns the product or an error. The result is the shapes set for the outputs 0, 1
  and 2 (\<open>output\<close>, \<open>output_h\<close>, \<open>output_c\<close>); output 3 is set to the unknown shape.
\<close>

definition Dim :: "TensorShape \<Rightarrow> nat \<Rightarrow> error + int64" where
  "Dim s idx = (if idx < length s then Inr (s ! idx) else Inl DimIndexOutOfRange)"

definition MkldnnRNN_ShapeFn ::
  "(int64 \<Rightarrow> int64 \<Rightarrow> error + int64) \<Rightarrow> string \<Rightarrow> string \<Rightarrow> TensorShape \<Rightarrow> TensorShape
     \<Rightarrow> error + (TensorShape \<times> TensorShape \<times> TensorShape)" where
  "MkldnnRNN_ShapeFn Multiply direction_attr rnn_mode_attr in_shape in_h_shape =
     (let dc = (if direction_attr = ''bidirectional'' then 2 else 1) :: int64
      in and_then
           (if length in_shape = 3 then
              and_then (Dim in_shape 0) (\<lambda>sl.
              and_then (Dim in_shape 1) (\<lambda>bs.
              and_then (Dim in_h_shape 2) (\<lambda>nu.
              and_then (Multiply nu dc) (\<lambda>output_size.
                Inr [sl, bs, output_size]))))
            else
              and_then (Dim in_shape 0) (\<lambda>bs.
              and_then (Dim in_h_shape 1) (\<lambda>nu.
              and_then (Multiply nu dc) (\<lambda>output_size.
                Inr [bs, output_size]))))
           (\<lambda>out_shape.
              let output_h_shape = in_h_shape;
                  output_c_shape = (if rnn_mode_attr = ''lstm'' then output_h_shape else [])
              in Inr (out_shape, output_h_shape, output_c_shape)))"

section \<open>Concrete tensors and a concrete library\<close>

text \<open>
  For evaluating the kernels at concrete inputs: the tensor of a given shape with every
  element equal to \<open>v\<close>, a library that accepts every descriptor and reports a
  workspace of \<open>sz\<close> bytes, and a \<open>Multiply\<close> that never fails.
\<close>

definition filled :: "'a \<Rightarrow> TensorShape \<Rightarrow> 'a Tensor" where
  "filled v s = Tensor s (replicate (prod_list (map unat s)) v)"

definition accepting :: "64 word \<Rightarrow> mkldnn" where
  "accepting sz = \<lparr> workspace_get_size = (\<lambda>d. Some sz), runs = (\<lambda>d. True) \<rparr>"

definition Multiply_exact :: "int64 \<Rightarrow> int64 \<Rightarrow> error + int64" where
  "Multiply_exact a b = Inr (a * b)"

text \<open>
  The inputs of a forward and of a backward call from the shapes of their tensors, and
  the model types of a kind and a direction (with the linear input mode).
\<close>

definition forward_inputs ::
  "TensorShape \<Rightarrow> TensorShape \<Rightarrow> TensorShape \<Rightarrow> TensorShape \<Rightarrow> int ForwardInputs" where
  "forward_inputs s_input s_h s_c s_params =
     \<lparr> input = filled 0 s_input, input_h = filled 0 s_h, input_c = filled 0 s_c,
       params = filled 0 s_params \<rparr>"

definition backward_inputs ::
  "TensorShape \<Rightarrow> TensorShape \<Rightarrow> TensorShape \<Rightarrow> TensorShape \<Rightarrow>
   TensorShape \<Rightarrow> TensorShape \<Rightarrow> TensorShape \<Rightarrow> TensorShape \<Rightarrow> int BackwardInputs" where
  "backward_inputs s_input s_h s_c s_params s_dy s_dhy s_dcy s_reserve =
     \<lparr> input = filled 0 s_input, input_h = filled 0 s_h, input_c = filled 0 s_c,
       params = filled 0 s_params, output_backprop = filled 0 s_dy,
       output_h_backprop = filled 0 s_dhy, output_c_backprop = filled 0 s_dcy,
       reserve_space = filled 0 s_reserve \<rparr>"

definition model :: "algorithm \<Rightarrow> direction \<Rightarrow> MkldnnModelTypes" where
  "model k d = \<lparr> rnn_mode = k, rnn_input_mode = rnn_linear_input, rnn_direction_mode = d \<rparr>"

section \<open>Auxiliary facts about tensors and conversions\<close>

lemma shape_filled [simp]: "shape (filled v s) = s"
  by (simp add: filled_def)

lemma dims_filled [simp]: "dims (filled v s) = length s"
  by (simp add: dims_def)

lemma sint_ucast_down:
  assumes "fits_int32 (sint (d :: int64))"
  shows "sint (ucast d :: int32) = sint d"
proof -
  have "(ucast d :: int32) = scast d"
    by (simp add: down_cast_same is_down)
  also have "\<dots> = word_of_int (sint d)"
    by (rule scast_eq)
  finally have "sint (ucast d :: int32) = sint (word_of_int (sint d) :: int32)"
    by (simp only:)
  also have "\<dots> = signed_take_bit (LENGTH(32) - 1) (sint d)"
    by (rule sint_sbintrunc')
  also have "\<dots> = sint d"
    using assms by (intro signed_take_bit_int_eq_self) (simp_all add: fits_int32_def)
  finally show ?thesis .
qed

lemma sint_scast_up: "sint (scast (w :: int32) :: int64) = sint w"
  by (simp add: sint_up_scast is_up)

lemma sint_num_layers:
  assumes "0 \<le> sint (d0 :: int64)" and "fits_int32 (sint d0)" and "dc = 1 \<or> dc = 2"
  shows "sint (ucast (int64_div d0 (scast (dc :: int32))) :: int32) = sint d0 div sint dc"
proof -
  let ?q = "sint d0 div sint dc"
  have dc: "0 < sint dc" using assms(3) by auto
  have sd: "sint d0 sdiv sint (scast dc :: int64) = ?q"
    using assms(1) dc by (simp add: sint_scast_up signed_divide_int_def sgn_if)
  have q0: "0 \<le> ?q" using assms(1) dc by (simp add: pos_imp_zdiv_nonneg_iff)
  have qle: "?q \<le> sint d0"
    using assms(1) dc zdiv_mono2[of "sint d0" 1 "sint dc"] by simp
  have q32: "fits_int32 ?q"
    using q0 qle assms(2) by (simp add: fits_int32_def)
  have "sint (word_of_int ?q :: int64) = signed_take_bit (LENGTH(64) - 1) ?q"
    by (rule sint_sbintrunc')
  also have "\<dots> = ?q"
    using q32 by (intro signed_take_bit_int_eq_self) (simp_all add: fits_int32_def)
  finally have s64: "sint (int64_div d0 (scast dc)) = ?q"
    by (simp only: int64_div_def sd)
  then have "fits_int32 (sint (int64_div d0 (scast dc)))"
    using q32 by simp
  then have "sint (ucast (int64_div d0 (scast dc)) :: int32) = sint (int64_div d0 (scast dc))"
    by (rule sint_ucast_down)
  then show ?thesis by (simp only: s64)
qed

lemmas example_defs =
  forward_inputs_def backward_inputs_def model_def accepting_def HasInputC_def
  ExtractForwardInput_def dim_size_def Let_def int64_div_def signed_divide_int_def

section \<open>Properties of the parameter size\<close>

lemma gate_multiplier_nonneg: "0 \<le> gate_multiplier k"
  by (cases k) simp_all

lemma get_param_size_word:
  "recognized k \<Longrightarrow>
   get_param_size k dc i u l =
     scast ((of_int (gate_multiplier k) * u * (i + u + 2)
             + of_int (gate_multiplier k) * (l - 1) * u * (2 * u + 2)) * dc)"
  by (cases k) (simp_all add: get_param_size_def recognized_def Let_def algebra_simps)

lemma word_of_int_spec_param_size:
  "(of_int (gate_multiplier k) * u * (i + u + 2)
    + of_int (gate_multiplier k) * (l - 1) * u * (2 * u + 2)) * dc
   = (word_of_int (spec_param_size k (sint dc) (sint i) (sint u) (sint l)) :: int32)"
  by (simp add: spec_param_size_def)

lemma sint_get_param_size:
  assumes "recognized k"
    and "fits_int32 (spec_param_size k (sint dc) (sint i) (sint u) (sint l))"
  shows "sint (get_param_size k dc i u l)
         = spec_param_size k (sint dc) (sint i) (sint u) (sint l)"
proof -
  let ?v = "spec_param_size k (sint dc) (sint i) (sint u) (sint l)"
  have "get_param_size k dc i u l = scast (word_of_int ?v :: int32)"
    using assms(1) by (simp only: get_param_size_word word_of_int_spec_param_size)
  then have "sint (get_param_size k dc i u l) = sint (word_of_int ?v :: int32)"
    by (simp add: sint_up_scast is_up)
  also have "\<dots> = signed_take_bit 31 ?v"
    by (simp add: sint_sbintrunc')
  also have "\<dots> = ?v"
    using assms(2) by (intro signed_take_bit_int_eq_self) (simp_all add: fits_int32_def)
  finally show ?thesis .
qed

lemma spec_param_size_mono:
  assumes "0 \<le> dc" "0 \<le> i" "i \<le> i'" "0 \<le> u" "u \<le> u'" "1 \<le> l" "l \<le> l'"
  shows "spec_param_size k dc i u l \<le> spec_param_size k dc i' u' l'"
proof -
  let ?g = "gate_multiplier k"
  have g: "0 \<le> ?g" by (rule gate_multiplier_nonneg)
  have gu: "?g * u \<le> ?g * u'"
    using g assms(5) by (rule mult_left_mono[rotated])
  have first: "?g * u * (i + u + 2) \<le> ?g * u' * (i' + u' + 2)"
    using gu by (rule mult_mono) (use assms g in auto)
  have gl: "?g * (l - 1) \<le> ?g * (l' - 1)"
    using g assms(7) by (intro mult_left_mono) auto
  have glu: "?g * (l - 1) * u \<le> ?g * (l' - 1) * u'"
    using gl assms(5) by (rule mult_mono) (use assms g in auto)
  have other: "?g * (l - 1) * u * (2 * u + 2) \<le> ?g * (l' - 1) * u' * (2 * u' + 2)"
    using glu by (rule mult_mono) (use assms g in auto)
  have "(?g * u * (i + u + 2) + ?g * (l - 1) * u * (2 * u + 2)) * dc
        \<le> (?g * u' * (i' + u' + 2) + ?g * (l' - 1) * u' * (2 * u' + 2)) * dc"
    using first other assms(1) by (intro mult_right_mono) auto
  then show ?thesis by (simp add: spec_param_size_def)
qed

lemma spec_param_size_nonneg:
  assumes "0 \<le> dc" "0 \<le> i" "0 \<le> u" "1 \<le> l"
  shows "0 \<le> spec_param_size k dc i u l"
  using assms gate_multiplier_nonneg[of k] by (simp add: spec_param_size_def)



text \<open>
  Claim C8, as stated, fails where the 32-bit product wraps around: for LSTM with
  20000 units and one layer the size for input size 6841 is 2147440000, and for input
  size 6842 it is negative.
\<close>

theorem get_param_size_not_monotone:
  "recognized rnn_lstm \<and> (0 :: int32) \<le>s 6841 \<and> (6841 :: int32) \<le>s 6842
   \<and> (0 :: int32) \<le>s 20000 \<and> (1 :: int32) \<le>s 1
   \<and> sint (get_param_size rnn_lstm 1 6841 20000 1) = 2147440000
   \<and> sint (get_param_size rnn_lstm 1 6842 20000 1) = - 2147447296
   \<and> \<not> (get_param_size rnn_lstm 1 6841 20000 1 \<le>s get_param_size rnn_lstm 1 6842 20000 1)"
  by (simp add: get_param_size_def recognized_def word_sle_eq)

text \<open>
  Claim C8, amended. For every recognized kind, a direction count of 1 or 2,
  non-negative input size and number of units and at least one layer, the size is
  non-decreasing in the number of layers, the number of units and the input size
  (each alone, the others fixed, or together), provided the value of the formula at the
  larger arguments is in the range of \<open>int\<close>. Being a function, the calculator is
  deterministic.
\<close>

theorem get_param_size_monotone:
  assumes "recognized k" and "dc = 1 \<or> dc = 2"
    and "0 \<le> sint i" "sint i \<le> sint i'"
    and "0 \<le> sint u" "sint u \<le> sint u'"
    and "1 \<le> sint l" "sint l \<le> sint l'"
    and "fits_int32 (spec_param_size k (sint dc) (sint i') (sint u') (sint l'))"
  shows "get_param_size k dc i u l \<le>s get_param_size k dc i' u' l'"
proof -
  have dc: "0 \<le> sint dc" using assms(2) by auto
  have le: "spec_param_size k (sint dc) (sint i) (sint u) (sint l)
            \<le> spec_param_size k (sint dc) (sint i') (sint u') (sint l')"
    using dc assms(3-8) by (rule spec_param_size_mono)
  have ge: "0 \<le> spec_param_size k (sint dc) (sint i) (sint u) (sint l)"
    using dc assms(3,5,7) by (rule spec_param_size_nonneg)
  have fits: "fits_int32 (spec_param_size k (sint dc) (sint i) (sint u) (sint l))"
    using le ge assms(9) by (simp add: fits_int32_def)
  show ?thesis
    using le by (simp add: word_sle_eq sint_get_param_size[OF assms(1) fits]
        sint_get_param_size[OF assms(1) assms(9)])
qed

theorem get_param_size_monotone_witness:
  "recognized rnn_gru \<and> ((2 :: int32) = 1 \<or> (2 :: int32) = 2)
   \<and> 0 \<le> sint (2 :: int32) \<and> sint (2 :: int32) \<le> sint (7 :: int32)
   \<and> 0 \<le> sint (5 :: int32) \<and> sint (5 :: int32) \<le> sint (6 :: int32)
   \<and> 1 \<le> sint (1 :: int32) \<and> sint (1 :: int32) \<le> sint (3 :: int32)
   \<and> fits_int32 (spec_param_size rnn_gru 2 7 6 3)
   \<and> get_param_size rnn_gru 2 2 5 1 = 270
   \<and> get_param_size rnn_gru 2 7 6 3 = 1548
   \<and> get_param_size rnn_gru 2 2 5 1 \<le>s get_param_size rnn_gru 2 7 6 3"
  using get_param_size_monotone [of rnn_gru 2 2 7 5 6 1 3]
  by (simp add: recognized_def fits_int32_def spec_param_size_def get_param_size_def)

section \<open>Properties of the shape resolver\<close>



lemma ExtractForwardInput_dir_count:
  assumes "ExtractForwardInput context mt = Inr ex"
  shows "dir_count (model_shapes ex) = (if rnn_direction_mode mt = rnn_bidirectional then 2 else 1)"
  using assms
  by (auto simp: ExtractForwardInput_def Let_def dim_size_def split: if_splits)

lemma ExtractForwardInput_pointers:
  assumes "ExtractForwardInput context mt = Inr ex"
  shows "Tx ex = input context \<and> Thx ex = input_h context \<and> Tweights ex = params context
     \<and> Tcx ex = (if HasInputC mt then Some (input_c context) else None)"
  using assms
  by (auto simp: ExtractForwardInput_def Let_def dim_size_def split: if_splits)

lemma ExtractForwardInput_cell_mismatch:
  assumes "HasInputC mt" and "shape (input_c context) \<noteq> shape (input_h context)"
  shows "ExtractForwardInput context mt =
           (if 2 \<le> dims (input context) \<and> 2 \<le> dims (input_h context)
            then Inl (InvalidArgument
              [Text ''input_h and input_c must have the same shape: '',
               ShapeDebugString (shape (input_h context)), Text '' '',
               ShapeDebugString (shape (input_c context))])
            else Inl DimIndexOutOfRange)"
  using assms
  by (auto simp: ExtractForwardInput_def Let_def dim_size_def split: if_splits)

lemma ExtractForwardInput_rank3_hidden:
  assumes "2 \<le> dims (input context)" and "3 \<le> dims (input_h context)"
    and "HasInputC mt \<longrightarrow> shape (input_h context) = shape (input_c context)"
  shows "\<exists>ex. ExtractForwardInput context mt = Inr ex
     \<and> num_layers (model_shapes ex) =
          ucast (int64_div (shape (input_h context) ! 0) (scast (dir_count (model_shapes ex))))
     \<and> num_units (model_shapes ex) = ucast (shape (input_h context) ! 2)
     \<and> hidden_state_shape (model_shapes ex) =
          [scast (dir_count (model_shapes ex) * num_layers (model_shapes ex)),
           scast (batch_size (model_shapes ex)), scast (num_units (model_shapes ex))]"
  using assms
  by (auto simp: ExtractForwardInput_def Let_def dim_size_def split: if_splits)




text \<open>
  Claim C2, as stated, fails: the resolver makes no divisibility check. A hidden state
  of shape \<open>[5, 8, 10]\<close> with two directions is accepted; \<open>num_layers\<close> is the
  truncated quotient 2 and the derived hidden-state shape is \<open>[4, 8, 10]\<close>.
\<close>

theorem ExtractForwardInput_accepts_remainder:
  "map_sum id model_shapes
     (ExtractForwardInput (forward_inputs [3, 8, 6] [5, 8, 10] [] [1080])
        (model rnn_gru rnn_bidirectional))
   = Inr \<lparr> num_layers = 2, input_size = 6, num_units = 10, seq_length = 3,
           batch_size = 8, dir_count = 2, input_shape = [3, 8, 6],
           output_shape = [3, 8, 20], hidden_state_shape = [4, 8, 10] \<rparr>"
  by (simp add: example_defs)

text \<open>
  Claim C2, amended. Given a hidden-state tensor of rank 3 (an input of rank at least
  2 and, for LSTM, a cell state of the hidden state's shape), the resolver succeeds
  whether or not the leading dimension is a multiple of \<open>dir_count\<close>: \<open>num_layers\<close>
  is the integer quotient of the leading dimension by \<open>dir_count\<close>, truncated, and the
  derived hidden-state shape is \<open>[dir_count * num_layers, batch_size, num_units]\<close>.
\<close>

theorem ExtractForwardInput_truncated_quotient:
  assumes "2 \<le> dims (input context)" and "dims (input_h context) = 3"
    and "HasInputC mt \<longrightarrow> shape (input_h context) = shape (input_c context)"
  shows "\<exists>ex. ExtractForwardInput context mt = Inr ex
     \<and> dir_count (model_shapes ex) = (if rnn_direction_mode mt = rnn_bidirectional then 2 else 1)
     \<and> num_layers (model_shapes ex) =
          ucast (int64_div (shape (input_h context) ! 0) (scast (dir_count (model_shapes ex))))
     \<and> (0 \<le> sint (shape (input_h context) ! 0) \<and> fits_int32 (sint (shape (input_h context) ! 0))
          \<longrightarrow> sint (num_layers (model_shapes ex))
               = sint (shape (input_h context) ! 0) div sint (dir_count (model_shapes ex)))
     \<and> hidden_state_shape (model_shapes ex) =
          [scast (dir_count (model_shapes ex) * num_layers (model_shapes ex)),
           scast (batch_size (model_shapes ex)), scast (num_units (model_shapes ex))]"
proof -
  from assms(2) have "3 \<le> dims (input_h context)" by simp
  from ExtractForwardInput_rank3_hidden[OF assms(1) this assms(3)]
  obtain ex where ex: "ExtractForwardInput context mt = Inr ex"
    and nl: "num_layers (model_shapes ex) =
          ucast (int64_div (shape (input_h context) ! 0) (scast (dir_count (model_shapes ex))))"
    and hs: "hidden_state_shape (model_shapes ex) =
          [scast (dir_count (model_shapes ex) * num_layers (model_shapes ex)),
           scast (batch_size (model_shapes ex)), scast (num_units (model_shapes ex))]"
    by blast
  have dc: "dir_count (model_shapes ex) = (if rnn_direction_mode mt = rnn_bidirectional then 2 else 1)"
    using ex by (rule ExtractForwardInput_dir_count)
  then have dc12: "dir_count (model_shapes ex) = 1 \<or> dir_count (model_shapes ex) = 2"
    by (simp split: if_splits)
  have v: "sint (num_layers (model_shapes ex))
               = sint (shape (input_h context) ! 0) div sint (dir_count (model_shapes ex))"
    if "0 \<le> sint (shape (input_h context) ! 0) \<and> fits_int32 (sint (shape (input_h context) ! 0))"
    using that dc12 by (simp only: nl sint_num_layers)
  from ex dc nl v hs show ?thesis by blast
qed

theorem ExtractForwardInput_truncated_quotient_witness:
  "2 \<le> dims (input (forward_inputs [3, 8, 6] [5, 8, 10] [] [1080]))
   \<and> dims (input_h (forward_inputs [3, 8, 6] [5, 8, 10] [] [1080])) = 3
   \<and> \<not> HasInputC (model rnn_gru rnn_bidirectional)
   \<and> 0 \<le> sint (5 :: int64) \<and> fits_int32 (sint (5 :: int64))
   \<and> (\<exists>ex. ExtractForwardInput (forward_inputs [3, 8, 6] [5, 8, 10] [] [1080])
              (model rnn_gru rnn_bidirectional) = Inr ex
          \<and> dir_count (model_shapes ex) = 2
          \<and> sint (num_layers (model_shapes ex)) = 2
          \<and> hidden_state_shape (model_shapes ex) = [4, 8, 10])"
proof -
  have a: "2 \<le> dims (input (forward_inputs [3, 8, 6] [5, 8, 10] [] [1080]))"
    by (simp add: forward_inputs_def)
  have b: "dims (input_h (forward_inputs [3, 8, 6] [5, 8, 10] [] [1080])) = 3"
    by (simp add: forward_inputs_def)
  have c: "HasInputC (model rnn_gru rnn_bidirectional) \<longrightarrow>
      shape (input_h (forward_inputs [3, 8, 6] [5, 8, 10] [] [1080]))
      = shape (input_c (forward_inputs [3, 8, 6] [5, 8, 10] [] [1080]))"
    by (simp add: HasInputC_def model_def)
  from ExtractForwardInput_truncated_quotient[OF a b c] a b
  show ?thesis
    by (simp add: example_defs fits_int32_def)
qed

section \<open>Properties of the forward and the backward kernel\<close>




lemmas kernel_defs =
  MkldnnRNNForwardOp_Compute_def MkldnnRNNBackwardOp_Compute_def
  Forward_rnn_fwd_desc_def Backward_rnn_fwd_desc_def Backward_rnn_bwd_desc_def

text \<open>
  Claim C6. For an LSTM model, whenever the shape of the cell-state tensor differs from
  the shape of the hidden-state tensor, the forward call and the backward call both
  fail; with input and hidden state of rank at least 2, where every dimension the
  resolver reads exists, the failure is \<open>InvalidArgument\<close> and its message carries the
  two shapes.
\<close>

theorem cell_state_shape_mismatch_fails:
  assumes "HasInputC mt"
    and "shape (input_c fcontext) \<noteq> shape (input_h fcontext)"
    and "shape (input_c bcontext) \<noteq> shape (input_h bcontext)"
  shows "(\<exists>e. MkldnnRNNForwardOp_Compute lib is_training mt fcontext = Inl e)
     \<and> (\<exists>e. MkldnnRNNBackwardOp_Compute lib mt bcontext = Inl e)
     \<and> (2 \<le> dims (input fcontext) \<and> 2 \<le> dims (input_h fcontext) \<longrightarrow>
          MkldnnRNNForwardOp_Compute lib is_training mt fcontext =
            Inl (InvalidArgument
                  [Text ''input_h and input_c must have the same shape: '',
                   ShapeDebugString (shape (input_h fcontext)), Text '' '',
                   ShapeDebugString (shape (input_c fcontext))]))
     \<and> (2 \<le> dims (input bcontext) \<and> 2 \<le> dims (input_h bcontext) \<longrightarrow>
          MkldnnRNNBackwardOp_Compute lib mt bcontext =
            Inl (InvalidArgument
                  [Text ''input_h and input_c must have the same shape: '',
                   ShapeDebugString (shape (input_h bcontext)), Text '' '',
                   ShapeDebugString (shape (input_c bcontext))]))"
proof -
  note f = ExtractForwardInput_cell_mismatch[OF assms(1) assms(2)]
  note b = ExtractForwardInput_cell_mismatch[OF assms(1) assms(3)]
  show ?thesis
    by (simp add: MkldnnRNNForwardOp_Compute_def MkldnnRNNBackwardOp_Compute_def f b)
qed

theorem cell_state_shape_mismatch_fails_witness:
  "HasInputC (model rnn_lstm rnn_unidirectional)
   \<and> shape (input_c (forward_inputs [3, 8, 6] [1, 8, 10] [1, 8, 11] [720]))
       \<noteq> shape (input_h (forward_inputs [3, 8, 6] [1, 8, 10] [1, 8, 11] [720]))
   \<and> shape (input_c (backward_inputs [3, 8, 6] [1, 8, 10] [1, 8, 11] [720]
                        [3, 8, 10] [1, 8, 10] [1, 8, 10] [1024]))
       \<noteq> shape (input_h (backward_inputs [3, 8, 6] [1, 8, 10] [1, 8, 11] [720]
                        [3, 8, 10] [1, 8, 10] [1, 8, 10] [1024]))
   \<and> MkldnnRNNForwardOp_Compute (accepting 4096) True (model rnn_lstm rnn_unidirectional)
        (forward_inputs [3, 8, 6] [1, 8, 10] [1, 8, 11] [720])
     = Inl (InvalidArgument
             [Text ''input_h and input_c must have the same shape: '',
              ShapeDebugString [1, 8, 10], Text '' '', ShapeDebugString [1, 8, 11]])
   \<and> MkldnnRNNBackwardOp_Compute (accepting 4096) (model rnn_lstm rnn_unidirectional)
        (backward_inputs [3, 8, 6] [1, 8, 10] [1, 8, 11] [720]
           [3, 8, 10] [1, 8, 10] [1, 8, 10] [1024])
     = Inl (InvalidArgument
             [Text ''input_h and input_c must have the same shape: '',
              ShapeDebugString [1, 8, 10], Text '' '', ShapeDebugString [1, 8, 11]])"
proof -
  have a: "HasInputC (model rnn_lstm rnn_unidirectional)"
    by (simp add: HasInputC_def model_def)
  have b: "shape (input_c (forward_inputs [3, 8, 6] [1, 8, 10] [1, 8, 11] [720]))
       \<noteq> shape (input_h (forward_inputs [3, 8, 6] [1, 8, 10] [1, 8, 11] [720]))"
    by (simp add: forward_inputs_def)
  have c: "shape (input_c (backward_inputs [3, 8, 6] [1, 8, 10] [1, 8, 11] [720]
                        [3, 8, 10] [1, 8, 10] [1, 8, 10] [1024]))
       \<noteq> shape (input_h (backward_inputs [3, 8, 6] [1, 8, 10] [1, 8, 11] [720]
                        [3, 8, 10] [1, 8, 10] [1, 8, 10] [1024]))"
    by (simp add: backward_inputs_def)
  from cell_state_shape_mismatch_fails[OF a b c, of "accepting 4096" True] a b c
  show ?thesis
    by (simp add: forward_inputs_def backward_inputs_def)
qed

text \<open>
  Claim C10. In a backward call on a model without a cell state the pointer to the
  cell-state input is never assigned and stays null; when the shape of the output
  gradient differs from the derived output shape, building the message of the failure
  reads through that pointer, so the call ends in a null-pointer dereference.
\<close>

theorem Backward_reads_null_cell_state:
  assumes "\<not> HasInputC mt" and "ExtractForwardInput context mt = Inr ex"
    and "output_shape (model_shapes ex) \<noteq> shape (output_backprop context)"
  shows "Tcx ex = None
     \<and> MkldnnRNNBackwardOp_Compute lib mt context = Inl NullPointerDereference"
  using assms ExtractForwardInput_pointers[OF assms(2)]
  by (simp add: MkldnnRNNBackwardOp_Compute_def Let_def)

theorem Backward_reads_null_cell_state_witness:
  "\<not> HasInputC (model rnn_gru rnn_unidirectional)
   \<and> ExtractForwardInput
        (backward_inputs [3, 8, 6] [1, 8, 10] [] [540] [3, 8, 11] [1, 8, 10] [] [1024])
        (model rnn_gru rnn_unidirectional)
     = Inr \<lparr> Tx = filled 0 [3, 8, 6], Thx = filled 0 [1, 8, 10], Tcx = None,
             Tweights = filled 0 [540],
             model_shapes =
               \<lparr> num_layers = 1, input_size = 6, num_units = 10, seq_length = 3,
                 batch_size = 8, dir_count = 1, input_shape = [3, 8, 6],
                 output_shape = [3, 8, 10], hidden_state_shape = [1, 8, 10] \<rparr> \<rparr>
   \<and> shape (output_backprop
        (backward_inputs [3, 8, 6] [1, 8, 10] [] [540] [3, 8, 11] [1, 8, 10] [] [1024]))
     = [3, 8, 11]
   \<and> MkldnnRNNBackwardOp_Compute (accepting 4096) (model rnn_gru rnn_unidirectional)
        (backward_inputs [3, 8, 6] [1, 8, 10] [] [540] [3, 8, 11] [1, 8, 10] [] [1024])
     = Inl NullPointerDereference"
proof -
  have a: "\<not> HasInputC (model rnn_gru rnn_unidirectional)"
    by (simp add: HasInputC_def model_def)
  have b: "ExtractForwardInput
        (backward_inputs [3, 8, 6] [1, 8, 10] [] [540] [3, 8, 11] [1, 8, 10] [] [1024])
        (model rnn_gru rnn_unidirectional)
     = Inr \<lparr> Tx = filled 0 [3, 8, 6], Thx = filled 0 [1, 8, 10], Tcx = None,
             Tweights = filled 0 [540],
             model_shapes =
               \<lparr> num_layers = 1, input_size = 6, num_units = 10, seq_length = 3,
                 batch_size = 8, dir_count = 1, input_shape = [3, 8, 6],
                 output_shape = [3, 8, 10], hidden_state_shape = [1, 8, 10] \<rparr> \<rparr>"
    by (simp add: example_defs)
  have c: "output_shape (model_shapes
             \<lparr> Tx = filled (0 :: int) [3, 8, 6], Thx = filled 0 [1, 8, 10], Tcx = None,
               Tweights = filled 0 [540],
               model_shapes =
                 \<lparr> num_layers = 1, input_size = 6, num_units = 10, seq_length = 3,
                   batch_size = 8, dir_count = 1, input_shape = [3, 8, 6],
                   output_shape = [3, 8, 10], hidden_state_shape = [1, 8, 10] \<rparr> \<rparr>)
        \<noteq> shape (output_backprop
             (backward_inputs [3, 8, 6] [1, 8, 10] [] [540] [3, 8, 11] [1, 8, 10] [] [1024]))"
    by (simp add: backward_inputs_def)
  from Backward_reads_null_cell_state[OF a b c, of "accepting 4096"] a b
  show ?thesis
    by (simp add: backward_inputs_def)
qed



text \<open>
  Claim C3 fails on the kernel: \<open>output_h\<close> (and \<open>output_c\<close> for LSTM) is allocated
  with the derived hidden-state shape, and \<open>input_h\<close> is never compared with it. A
  forward call on input \<open>[3, 8, 6]\<close> and hidden state \<open>[1, 9, 10]\<close> succeeds with
  \<open>output_h\<close> of shape \<open>[1, 8, 10]\<close>, while the shape function of the op gives
  \<open>output_h\<close> the shape \<open>[1, 9, 10]\<close> of \<open>input_h\<close>.
\<close>

theorem Forward_output_h_not_input_h:
  "MkldnnRNNForwardOp_Compute (accepting 0) False (model rnn_gru rnn_unidirectional)
     (forward_inputs [3, 8, 6] [1, 9, 10] [] [540])
   = Inr \<lparr> Ty = [3, 8, 10], Thy = [1, 8, 10], Tcy = [], Tworkspace = [] \<rparr>
   \<and> shape (input_h (forward_inputs [3, 8, 6] [1, 9, 10] [] [540])) = [1, 9, 10]
   \<and> MkldnnRNN_ShapeFn Multiply_exact ''unidirectional'' ''gru'' [3, 8, 6] [1, 9, 10]
     = Inr ([3, 8, 10], [1, 9, 10], [])"
  by (simp add: kernel_defs example_defs MkldnnRNN_ShapeFn_def Dim_def Multiply_exact_def)

text \<open>
  Claim C4 fails on the check of the output gradient: for an LSTM model and an output
  gradient of shape \<open>[3, 8, 11]\<close> against the derived output shape \<open>[3, 8, 10]\<close> the
  call fails with \<open>InvalidArgument\<close>, but the message speaks of \<open>h\<close> and \<open>c\<close> and
  carries the shapes of \<open>input_h\<close> and \<open>input_c\<close>, neither the output gradient nor
  either of the two conflicting shapes.
\<close>

theorem Backward_output_gradient_message:
  "shape (output_backprop
     (backward_inputs [3, 8, 6] [1, 8, 10] [1, 8, 10] [720]
        [3, 8, 11] [1, 8, 10] [1, 8, 10] [1024])) = [3, 8, 11]
   \<and> map_sum id (output_shape \<circ> model_shapes)
       (ExtractForwardInput
          (backward_inputs [3, 8, 6] [1, 8, 10] [1, 8, 10] [720]
             [3, 8, 11] [1, 8, 10] [1, 8, 10] [1024])
          (model rnn_lstm rnn_unidirectional)) = Inr [3, 8, 10]
   \<and> MkldnnRNNBackwardOp_Compute (accepting 4096) (model rnn_lstm rnn_unidirectional)
       (backward_inputs [3, 8, 6] [1, 8, 10] [1, 8, 10] [720]
          [3, 8, 11] [1, 8, 10] [1, 8, 10] [1024])
     = Inl (InvalidArgument
             [Text ''h and c must have the same shape: '', ShapeDebugString [1, 8, 10],
              Text '' '', ShapeDebugString [1, 8, 10]])"
  by (simp add: kernel_defs example_defs)

section \<open>The size query on tensors that are not scalars\<close>

text \<open>
  Claim C9 fails on the code: a \<open>num_layers\<close> tensor of shape \<open>[1]\<close>, which is not a
  scalar, is only reported in a log line; the call goes on, reads the element and
  returns the size 304.
\<close>

theorem ParamsSize_non_scalar_only_logged:
  "\<not> IsScalar (shape (Tensor [1] [2 :: int32]))
   \<and> MkldnnRNNParamsSizeOp_Compute (model rnn_lstm rnn_unidirectional)
       \<lparr> num_layers_t = Tensor [1] [2], num_units_t = Tensor [] [4],
         input_size_t = Tensor [] [3] \<rparr>
     = ([''num_layers is not a scalar''], Inr (Tensor [1] [304]))"
  by (simp add: MkldnnRNNParamsSizeOp_Compute_def model_def IsScalar_def scalar_def
      get_param_size_def)

end
